theory Spec2Isabelle
  imports Complex_Main
begin

section \<open>The slider joint of ReactPhysics3D (src/constraint/SliderJoint.h)\<close>

subsection \<open>Scalars and math primitives\<close>

text \<open>
  \<open>decimal\<close> is the engine's floating-point scalar. Its typedef and the classes
  \<open>Vector2\<close>, \<open>Vector3\<close>, \<open>Quaternion\<close>, \<open>Matrix2x2\<close> and \<open>Matrix3x3\<close> live in
  \<open>../mathematics/mathematics.h\<close>, which the header only includes. A \<open>decimal\<close> is
  read as a real number: rounding and overflow are not part of the model. The vector
  and matrix classes are the tuples of components their names say.
\<close>

type_synonym decimal = real

datatype Vector2 = Vector2 decimal decimal

datatype Vector3 = Vector3 decimal decimal decimal

datatype Quaternion = Quaternion decimal decimal decimal decimal

datatype Matrix2x2 = Matrix2x2 Vector2 Vector2

datatype Matrix3x3 = Matrix3x3 Vector3 Vector3 Vector3

text \<open>
  The quotient of two decimals is a real number only for a divisor other than zero.
  The C++ operator \<open>/\<close> on a zero divisor gives an infinity or a NaN; the model returns
  the error value instead of a number, so that every division of the source is a branch
  that can be seen.
\<close>

datatype error = DivisionByZero

definition decimal_div :: "decimal \<Rightarrow> decimal \<Rightarrow> error + decimal" where
  "decimal_div a b = (if b = 0 then Inl DivisionByZero else Inr (a / b))"

subsection \<open>Structure SliderJointInfo\<close>

text \<open>
  \<open>SliderJointInfo\<close> derives from \<open>ConstraintInfo\<close>, whose constructor receives the two
  bodies and the constraint type. A \<open>RigidBody*\<close> is a handle; \<open>SLIDERJOINT\<close> is the
  only enumerator of the constraint type the header names.
\<close>

type_synonym RigidBody_ptr = nat

datatype ConstraintType = SLIDERJOINT

record ConstraintInfo =
  body1 :: RigidBody_ptr
  body2 :: RigidBody_ptr
  type :: ConstraintType

record SliderJointInfo = ConstraintInfo +
  anchorPointWorldSpace :: Vector3
  sliderAxisWorldSpace :: Vector3
  isLimitEnabled :: bool
  isMotorEnabled :: bool
  lowerLimit :: decimal
  upperLimit :: decimal
  motorSpeed :: decimal
  maxMotorForce :: decimal

text \<open>Constructor without limits and without motor (lines 71-78).\<close>

definition SliderJointInfo_noLimitsNoMotor ::
  "RigidBody_ptr \<Rightarrow> RigidBody_ptr \<Rightarrow> Vector3 \<Rightarrow> Vector3 \<Rightarrow> SliderJointInfo" where
  "SliderJointInfo_noLimitsNoMotor rigidBody1 rigidBody2
      initAnchorPointWorldSpace initSliderAxisWorldSpace =
     \<lparr> body1 = rigidBody1, body2 = rigidBody2, type = SLIDERJOINT,
       anchorPointWorldSpace = initAnchorPointWorldSpace,
       sliderAxisWorldSpace = initSliderAxisWorldSpace,
       isLimitEnabled = False, isMotorEnabled = False, lowerLimit = - 1,
       upperLimit = 1, motorSpeed = 0, maxMotorForce = 0 \<rparr>"

text \<open>Constructor with limits and no motor (lines 81-89).\<close>

definition SliderJointInfo_limits ::
  "RigidBody_ptr \<Rightarrow> RigidBody_ptr \<Rightarrow> Vector3 \<Rightarrow> Vector3 \<Rightarrow> decimal \<Rightarrow> decimal
     \<Rightarrow> SliderJointInfo" where
  "SliderJointInfo_limits rigidBody1 rigidBody2
      initAnchorPointWorldSpace initSliderAxisWorldSpace initLowerLimit initUpperLimit =
     \<lparr> body1 = rigidBody1, body2 = rigidBody2, type = SLIDERJOINT,
       anchorPointWorldSpace = initAnchorPointWorldSpace,
       sliderAxisWorldSpace = initSliderAxisWorldSpace,
       isLimitEnabled = True, isMotorEnabled = False, lowerLimit = initLowerLimit,
       upperLimit = initUpperLimit, motorSpeed = 0, maxMotorForce = 0 \<rparr>"

text \<open>Constructor with limits and motor (lines 92-102).\<close>

definition SliderJointInfo_limitsMotor ::
  "RigidBody_ptr \<Rightarrow> RigidBody_ptr \<Rightarrow> Vector3 \<Rightarrow> Vector3 \<Rightarrow> decimal \<Rightarrow> decimal
     \<Rightarrow> decimal \<Rightarrow> decimal \<Rightarrow> SliderJointInfo" where
  "SliderJointInfo_limitsMotor rigidBody1 rigidBody2
      initAnchorPointWorldSpace initSliderAxisWorldSpace initLowerLimit initUpperLimit
      initMotorSpeed initMaxMotorForce =
     \<lparr> body1 = rigidBody1, body2 = rigidBody2, type = SLIDERJOINT,
       anchorPointWorldSpace = initAnchorPointWorldSpace,
       sliderAxisWorldSpace = initSliderAxisWorldSpace,
       isLimitEnabled = True, isMotorEnabled = True, lowerLimit = initLowerLimit,
       upperLimit = initUpperLimit, motorSpeed = initMotorSpeed,
       maxMotorForce = initMaxMotorForce \<rparr>"

text \<open>
  The configuration the solver expects: the lower limit is not above the upper limit and
  the maximum motor force is not negative.
\<close>

definition validConfiguration :: "SliderJointInfo \<Rightarrow> bool" where
  "validConfiguration info \<longleftrightarrow>
     lowerLimit info \<le> upperLimit info \<and> 0 \<le> maxMotorForce info"

subsection \<open>Class SliderJoint: attributes\<close>

text \<open>The private attributes of the class, in the order of their declaration (lines 120-226).\<close>

record SliderJoint =
  mLocalAnchorPointBody1 :: Vector3
  mLocalAnchorPointBody2 :: Vector3
  mSliderAxisBody1 :: Vector3
  mInitOrientationDifference :: Quaternion
  mN1 :: Vector3
  mN2 :: Vector3
  mR1 :: Vector3
  mR2 :: Vector3
  mR2CrossN1 :: Vector3
  mR2CrossN2 :: Vector3
  mR2CrossSliderAxis :: Vector3
  mR1PlusUCrossN1 :: Vector3
  mR1PlusUCrossN2 :: Vector3
  mR1PlusUCrossSliderAxis :: Vector3
  mBTranslation :: Vector2
  mBRotation :: Vector3
  mBLowerLimit :: decimal
  mBUpperLimit :: decimal
  mInverseMassMatrixTranslationConstraint :: Matrix2x2
  mInverseMassMatrixRotationConstraint :: Matrix3x3
  mInverseMassMatrixLimit :: decimal
  mInverseMassMatrixMotor :: decimal
  mImpulseTranslation :: Vector2
  mImpulseRotation :: Vector3
  mImpulseLowerLimit :: decimal
  mImpulseUpperLimit :: decimal
  mImpulseMotor :: decimal
  mIsLimitEnabled :: bool
  mIsMotorEnabled :: bool
  mSliderAxisWorld :: Vector3
  mLowerLimit :: decimal
  mUpperLimit :: decimal
  mIsLowerLimitViolated :: bool
  mIsUpperLimitViolated :: bool
  mMotorSpeed :: decimal
  mMaxMotorForce :: decimal

subsection \<open>Class SliderJoint: inline accessors\<close>

text \<open>
  The accessors are \<open>const\<close> member functions: they take the joint and return a value,
  and there is no joint to return. The two that share a name with a field of
  \<open>SliderJointInfo\<close> carry the class name.
\<close>

definition SliderJoint_isLimitEnabled :: "SliderJoint \<Rightarrow> bool" where
  "SliderJoint_isLimitEnabled j = mIsLimitEnabled j"

definition SliderJoint_isMotorEnabled :: "SliderJoint \<Rightarrow> bool" where
  "SliderJoint_isMotorEnabled j = mIsMotorEnabled j"

definition getLowerLimit :: "SliderJoint \<Rightarrow> decimal" where
  "getLowerLimit j = mLowerLimit j"

definition getUpperLimit :: "SliderJoint \<Rightarrow> decimal" where
  "getUpperLimit j = mUpperLimit j"

definition getMotorSpeed :: "SliderJoint \<Rightarrow> decimal" where
  "getMotorSpeed j = mMotorSpeed j"

definition getMaxMotorForce :: "SliderJoint \<Rightarrow> decimal" where
  "getMaxMotorForce j = mMaxMotorForce j"

text \<open>Return the intensity of the current force applied for the joint motor (lines 329-331).\<close>

definition getMotorForce :: "SliderJoint \<Rightarrow> decimal \<Rightarrow> error + decimal" where
  "getMotorForce j timeStep = decimal_div (mImpulseMotor j) timeStep"

text \<open>
  The same body (lines 329-331) with the operator \<open>/\<close> of \<open>decimal\<close> as the parameter
  \<open>divideOp\<close>: the arithmetic of \<open>decimal\<close> is declared outside the header, and the body
  does nothing but apply it to \<open>mImpulseMotor\<close> and \<open>timeStep\<close>. A result \<open>Inl\<close> of
  \<open>divideOp\<close> is a division without a result. \<open>getMotorForce\<close> is the instance of this
  definition at \<open>decimal_div\<close>.
\<close>

definition getMotorForce_div ::
  "(decimal \<Rightarrow> decimal \<Rightarrow> error + decimal) \<Rightarrow> SliderJoint \<Rightarrow> decimal \<Rightarrow> error + decimal" where
  "getMotorForce_div divideOp j timeStep = divideOp (mImpulseMotor j) timeStep"

subsection \<open>Class SliderJoint: the velocity solve\<close>

text \<open>
  The header declares \<open>solveVelocityConstraint\<close> (line 292); its body is in
  \<open>SliderJoint.cpp\<close> and the class \<open>ConstraintSolverData\<close> in
  \<open>../engine/ConstraintSolver.h\<close>, both outside the header. The definitions of this
  subsection follow section 4.4 of the specification, step by step. The velocities of
  the two bodies are a value of a type \<open>'b\<close>. What the specification describes without
  a formula, the impulse each sub-constraint computes from the velocities and the way an
  impulse changes the velocities, is a parameter.
\<close>

text \<open>
  Modelled from the spec: the Jacobian terms of the five sub-constraints, which the
  specification names but does not write out. For each sub-constraint, the impulse the
  current velocities ask for (the relative velocity along the constraint's directions,
  combined with the bias, mapped through the inverse mass matrix; for the motor, the
  impulse that drives the axis-relative velocity toward the target motor speed), and the
  application of an impulse to the velocities of both bodies.
\<close>

record 'b JacobianTerms =
  translationImpulse :: "SliderJoint \<Rightarrow> 'b \<Rightarrow> Vector2"
  rotationImpulse :: "SliderJoint \<Rightarrow> 'b \<Rightarrow> Vector3"
  lowerLimitImpulse :: "SliderJoint \<Rightarrow> 'b \<Rightarrow> decimal"
  upperLimitImpulse :: "SliderJoint \<Rightarrow> 'b \<Rightarrow> decimal"
  motorImpulse :: "SliderJoint \<Rightarrow> 'b \<Rightarrow> decimal"
  applyTranslationImpulse :: "SliderJoint \<Rightarrow> Vector2 \<Rightarrow> 'b \<Rightarrow> 'b"
  applyRotationImpulse :: "SliderJoint \<Rightarrow> Vector3 \<Rightarrow> 'b \<Rightarrow> 'b"
  applyLowerLimitImpulse :: "SliderJoint \<Rightarrow> decimal \<Rightarrow> 'b \<Rightarrow> 'b"
  applyUpperLimitImpulse :: "SliderJoint \<Rightarrow> decimal \<Rightarrow> 'b \<Rightarrow> 'b"
  applyMotorImpulse :: "SliderJoint \<Rightarrow> decimal \<Rightarrow> 'b \<Rightarrow> 'b"

text \<open>Modelled from the spec: the sum of two accumulated impulses, by components.\<close>

fun Vector2_add :: "Vector2 \<Rightarrow> Vector2 \<Rightarrow> Vector2" where
  "Vector2_add (Vector2 x1 y1) (Vector2 x2 y2) = Vector2 (x1 + x2) (y1 + y2)"

fun Vector3_add :: "Vector3 \<Rightarrow> Vector3 \<Rightarrow> Vector3" where
  "Vector3_add (Vector3 x1 y1 z1) (Vector3 x2 y2 z2) = Vector3 (x1 + x2) (y1 + y2) (z1 + z2)"

text \<open>Modelled from the spec: a value clamped to a lower and an upper bound.\<close>

definition clamp :: "decimal \<Rightarrow> decimal \<Rightarrow> decimal \<Rightarrow> decimal" where
  "clamp x lowerBound upperBound = min (max x lowerBound) upperBound"

text \<open>
  Modelled from the spec: step 1 of section 4.4, the translation constraint (2 degrees
  of freedom, an equality). The impulse is solved for directly, with no clamping,
  applied to both bodies and accumulated into the running impulse.
\<close>

definition solveTranslation ::
  "'b JacobianTerms \<Rightarrow> SliderJoint \<times> 'b \<Rightarrow> SliderJoint \<times> 'b" where
  "solveTranslation J s =
     (let (j, b) = s;
          deltaLambda = translationImpulse J j b;
          j' = j\<lparr>mImpulseTranslation := Vector2_add (mImpulseTranslation j) deltaLambda\<rparr>
      in (j', applyTranslationImpulse J j' deltaLambda b))"

text \<open>
  Modelled from the spec: step 2 of section 4.4, the rotation constraint (3 degrees of
  freedom, an equality), the same pattern with the 3x3 terms.
\<close>

definition solveRotation ::
  "'b JacobianTerms \<Rightarrow> SliderJoint \<times> 'b \<Rightarrow> SliderJoint \<times> 'b" where
  "solveRotation J s =
     (let (j, b) = s;
          deltaLambda = rotationImpulse J j b;
          j' = j\<lparr>mImpulseRotation := Vector3_add (mImpulseRotation j) deltaLambda\<rparr>
      in (j', applyRotationImpulse J j' deltaLambda b))"

text \<open>
  Modelled from the spec: step 3 of section 4.4 for the lower limit. The sub-constraint
  is evaluated only if the limits are enabled and the lower limit is violated. The
  accumulated impulse plus the new one is clamped at zero from below, and the impulse
  applied to the bodies is the change of the accumulated total.
\<close>

definition solveLowerLimit ::
  "'b JacobianTerms \<Rightarrow> SliderJoint \<times> 'b \<Rightarrow> SliderJoint \<times> 'b" where
  "solveLowerLimit J s =
     (let (j, b) = s in
      if mIsLimitEnabled j \<and> mIsLowerLimitViolated j then
        (let deltaLambda = lowerLimitImpulse J j b;
             lambdaTemp = mImpulseLowerLimit j;
             j' = j\<lparr>mImpulseLowerLimit := max (lambdaTemp + deltaLambda) 0\<rparr>
         in (j', applyLowerLimitImpulse J j' (mImpulseLowerLimit j' - lambdaTemp) b))
      else (j, b))"

text \<open>Modelled from the spec: step 3 of section 4.4 for the upper limit, as for the lower one.\<close>

definition solveUpperLimit ::
  "'b JacobianTerms \<Rightarrow> SliderJoint \<times> 'b \<Rightarrow> SliderJoint \<times> 'b" where
  "solveUpperLimit J s =
     (let (j, b) = s in
      if mIsLimitEnabled j \<and> mIsUpperLimitViolated j then
        (let deltaLambda = upperLimitImpulse J j b;
             lambdaTemp = mImpulseUpperLimit j;
             j' = j\<lparr>mImpulseUpperLimit := max (lambdaTemp + deltaLambda) 0\<rparr>
         in (j', applyUpperLimitImpulse J j' (mImpulseUpperLimit j' - lambdaTemp) b))
      else (j, b))"

text \<open>
  Modelled from the spec: step 4 of section 4.4, the motor. The sub-constraint is
  evaluated only if the motor is enabled. The bound of the step is the maximum motor
  force times the time step; the accumulated impulse plus the new one is clamped to
  plus and minus that bound, and the impulse applied to the bodies is the change of the
  accumulated total.
\<close>

definition solveMotor ::
  "'b JacobianTerms \<Rightarrow> decimal \<Rightarrow> SliderJoint \<times> 'b \<Rightarrow> SliderJoint \<times> 'b" where
  "solveMotor J timeStep s =
     (let (j, b) = s in
      if mIsMotorEnabled j then
        (let maxMotorImpulse = mMaxMotorForce j * timeStep;
             deltaLambda = motorImpulse J j b;
             lambdaTemp = mImpulseMotor j;
             j' = j\<lparr>mImpulseMotor :=
                      clamp (lambdaTemp + deltaLambda) (- maxMotorImpulse) maxMotorImpulse\<rparr>
         in (j', applyMotorImpulse J j' (mImpulseMotor j' - lambdaTemp) b))
      else (j, b))"

text \<open>
  Modelled from the spec: \<open>solveVelocityConstraint\<close>, one call. The sub-constraints run
  in the fixed order translation, rotation, limits, motor, each on the velocities the
  one before it left.
\<close>

definition solveVelocityConstraint ::
  "'b JacobianTerms \<Rightarrow> decimal \<Rightarrow> SliderJoint \<times> 'b \<Rightarrow> SliderJoint \<times> 'b" where
  "solveVelocityConstraint J timeStep s =
     solveMotor J timeStep
       (solveUpperLimit J (solveLowerLimit J (solveRotation J (solveTranslation J s))))"

text \<open>
  Modelled from the spec: the velocity solve of one step as its owning solver runs it
  (section 2), \<open>n\<close> calls of \<open>solveVelocityConstraint\<close>. Between two calls the other
  joints and contacts of the island change the velocities of the bodies: \<open>others k\<close> is
  what they do after call \<open>k\<close>.
\<close>

primrec velocitySolve ::
  "'b JacobianTerms \<Rightarrow> decimal \<Rightarrow> (nat \<Rightarrow> 'b \<Rightarrow> 'b) \<Rightarrow> nat \<Rightarrow> SliderJoint \<times> 'b
     \<Rightarrow> SliderJoint \<times> 'b" where
  "velocitySolve J timeStep others 0 s = s"
| "velocitySolve J timeStep others (Suc n) s =
     (let (j, b) = solveVelocityConstraint J timeStep (velocitySolve J timeStep others n s)
      in (j, others n b))"

section \<open>Properties\<close>

subsection \<open>The motor force accessor\<close>

text \<open>
  C1. For every slider joint and every time step, \<open>getMotorForce\<close> returns the quotient
  of the accumulated motor impulse \<open>mImpulseMotor\<close> by the time step: it is the division
  of exactly these two operands, for a time step other than zero the number
  \<open>mImpulseMotor / timeStep\<close>. It reads no other attribute: two joints with the same
  accumulated motor impulse give the same answer, whatever their other attributes are.
  It changes nothing: the accessor is \<open>const\<close> and its only result is the returned
  number.
\<close>

theorem getMotorForce_quotient:
  "getMotorForce j timeStep = decimal_div (mImpulseMotor j) timeStep
   \<and> (timeStep \<noteq> 0 \<longrightarrow> getMotorForce j timeStep = Inr (mImpulseMotor j / timeStep))
   \<and> (\<forall>j'. mImpulseMotor j' = mImpulseMotor j
          \<longrightarrow> getMotorForce j' timeStep = getMotorForce j timeStep)"
  by (simp add: getMotorForce_def decimal_div_def)

theorem getMotorForce_quotient_witness:
  "(2::decimal) \<noteq> 0
   \<and> getMotorForce
        \<lparr> mLocalAnchorPointBody1 = Vector3 0 0 0, mLocalAnchorPointBody2 = Vector3 0 0 0,
          mSliderAxisBody1 = Vector3 1 0 0, mInitOrientationDifference = Quaternion 0 0 0 1,
          mN1 = Vector3 0 1 0, mN2 = Vector3 0 0 1, mR1 = Vector3 0 0 0, mR2 = Vector3 0 0 0,
          mR2CrossN1 = Vector3 0 0 0, mR2CrossN2 = Vector3 0 0 0,
          mR2CrossSliderAxis = Vector3 0 0 0, mR1PlusUCrossN1 = Vector3 0 0 0,
          mR1PlusUCrossN2 = Vector3 0 0 0, mR1PlusUCrossSliderAxis = Vector3 0 0 0,
          mBTranslation = Vector2 0 0, mBRotation = Vector3 0 0 0, mBLowerLimit = 0,
          mBUpperLimit = 0,
          mInverseMassMatrixTranslationConstraint = Matrix2x2 (Vector2 1 0) (Vector2 0 1),
          mInverseMassMatrixRotationConstraint =
            Matrix3x3 (Vector3 1 0 0) (Vector3 0 1 0) (Vector3 0 0 1),
          mInverseMassMatrixLimit = 1, mInverseMassMatrixMotor = 1,
          mImpulseTranslation = Vector2 0 0, mImpulseRotation = Vector3 0 0 0,
          mImpulseLowerLimit = 0, mImpulseUpperLimit = 0, mImpulseMotor = 6,
          mIsLimitEnabled = True, mIsMotorEnabled = True, mSliderAxisWorld = Vector3 1 0 0,
          mLowerLimit = - 1, mUpperLimit = 1, mIsLowerLimitViolated = False,
          mIsUpperLimitViolated = False, mMotorSpeed = 2, mMaxMotorForce = 10 \<rparr> 2 = Inr 3
   \<and> getMotorForce
        \<lparr> mLocalAnchorPointBody1 = Vector3 4 5 6, mLocalAnchorPointBody2 = Vector3 7 8 9,
          mSliderAxisBody1 = Vector3 0 1 0, mInitOrientationDifference = Quaternion 1 0 0 0,
          mN1 = Vector3 0 0 1, mN2 = Vector3 1 0 0, mR1 = Vector3 1 1 1, mR2 = Vector3 2 2 2,
          mR2CrossN1 = Vector3 3 0 0, mR2CrossN2 = Vector3 0 3 0,
          mR2CrossSliderAxis = Vector3 0 0 3, mR1PlusUCrossN1 = Vector3 4 0 0,
          mR1PlusUCrossN2 = Vector3 0 4 0, mR1PlusUCrossSliderAxis = Vector3 0 0 4,
          mBTranslation = Vector2 1 1, mBRotation = Vector3 1 1 1, mBLowerLimit = 7,
          mBUpperLimit = 8,
          mInverseMassMatrixTranslationConstraint = Matrix2x2 (Vector2 2 0) (Vector2 0 2),
          mInverseMassMatrixRotationConstraint =
            Matrix3x3 (Vector3 2 0 0) (Vector3 0 2 0) (Vector3 0 0 2),
          mInverseMassMatrixLimit = 3, mInverseMassMatrixMotor = 4,
          mImpulseTranslation = Vector2 5 5, mImpulseRotation = Vector3 5 5 5,
          mImpulseLowerLimit = 9, mImpulseUpperLimit = 9, mImpulseMotor = 6,
          mIsLimitEnabled = False, mIsMotorEnabled = False, mSliderAxisWorld = Vector3 0 1 0,
          mLowerLimit = - 3, mUpperLimit = 3, mIsLowerLimitViolated = True,
          mIsUpperLimitViolated = True, mMotorSpeed = 0, mMaxMotorForce = 0 \<rparr> 2 = Inr 3"
proof -
  let ?j = "\<lparr> mLocalAnchorPointBody1 = Vector3 0 0 0, mLocalAnchorPointBody2 = Vector3 0 0 0,
          mSliderAxisBody1 = Vector3 1 0 0, mInitOrientationDifference = Quaternion 0 0 0 1,
          mN1 = Vector3 0 1 0, mN2 = Vector3 0 0 1, mR1 = Vector3 0 0 0, mR2 = Vector3 0 0 0,
          mR2CrossN1 = Vector3 0 0 0, mR2CrossN2 = Vector3 0 0 0,
          mR2CrossSliderAxis = Vector3 0 0 0, mR1PlusUCrossN1 = Vector3 0 0 0,
          mR1PlusUCrossN2 = Vector3 0 0 0, mR1PlusUCrossSliderAxis = Vector3 0 0 0,
          mBTranslation = Vector2 0 0, mBRotation = Vector3 0 0 0, mBLowerLimit = 0,
          mBUpperLimit = 0,
          mInverseMassMatrixTranslationConstraint = Matrix2x2 (Vector2 1 0) (Vector2 0 1),
          mInverseMassMatrixRotationConstraint =
            Matrix3x3 (Vector3 1 0 0) (Vector3 0 1 0) (Vector3 0 0 1),
          mInverseMassMatrixLimit = 1, mInverseMassMatrixMotor = 1,
          mImpulseTranslation = Vector2 0 0, mImpulseRotation = Vector3 0 0 0,
          mImpulseLowerLimit = 0, mImpulseUpperLimit = 0, mImpulseMotor = 6,
          mIsLimitEnabled = True, mIsMotorEnabled = True, mSliderAxisWorld = Vector3 1 0 0,
          mLowerLimit = - 1, mUpperLimit = 1, mIsLowerLimitViolated = False,
          mIsUpperLimitViolated = False, mMotorSpeed = 2, mMaxMotorForce = (10::decimal) \<rparr>"
  have nz: "(2::decimal) \<noteq> 0" by simp
  from getMotorForce_quotient [of ?j 2]
  have quot: "getMotorForce ?j 2 = Inr (mImpulseMotor ?j / 2)"
    and frame: "\<And>j'. mImpulseMotor j' = mImpulseMotor ?j
                  \<Longrightarrow> getMotorForce j' 2 = getMotorForce ?j 2"
    using nz by blast+
  from quot have v: "getMotorForce ?j 2 = Inr 3" by simp
  show ?thesis
    apply (intro conjI)
      apply (rule nz)
     apply (rule v)
    apply (subst frame)
     apply simp
    apply (rule v)
    done
qed

text \<open>
  C10. \<open>getMotorForce\<close> hands the accumulated motor impulse and its argument to the
  division as they are, for every time step: the body has no test of the time step and
  no other branch, and the comment of the declaration (line 279) states no precondition.
  Whatever the operator \<open>/\<close> of \<open>decimal\<close> does, the accessor returns what that operator
  returns on \<open>mImpulseMotor\<close> and \<open>timeStep\<close>, also for a time step of zero, where the
  divisor is zero. C++ leaves a division by zero undefined (an IEEE implementation
  returns an infinity or a NaN): for a division that has no result on a zero divisor,
  the accessor has no result at a time step of zero, for every joint, so that it is
  total only for a time step other than zero.
\<close>

theorem getMotorForce_unguarded:
  "getMotorForce_div divideOp j timeStep = divideOp (mImpulseMotor j) timeStep
   \<and> getMotorForce_div divideOp j 0 = divideOp (mImpulseMotor j) 0
   \<and> ((\<forall>impulse. divideOp impulse 0 = Inl DivisionByZero)
        \<longrightarrow> getMotorForce_div divideOp j 0 = Inl DivisionByZero)
   \<and> getMotorForce j timeStep = getMotorForce_div decimal_div j timeStep"
  by (simp add: getMotorForce_div_def getMotorForce_def)

theorem getMotorForce_unguarded_witness:
  "(\<forall>impulse. decimal_div impulse 0 = Inl DivisionByZero)
   \<and> getMotorForce_div decimal_div
        \<lparr> mLocalAnchorPointBody1 = Vector3 0 0 0, mLocalAnchorPointBody2 = Vector3 0 0 0,
          mSliderAxisBody1 = Vector3 1 0 0, mInitOrientationDifference = Quaternion 0 0 0 1,
          mN1 = Vector3 0 1 0, mN2 = Vector3 0 0 1, mR1 = Vector3 0 0 0, mR2 = Vector3 0 0 0,
          mR2CrossN1 = Vector3 0 0 0, mR2CrossN2 = Vector3 0 0 0,
          mR2CrossSliderAxis = Vector3 0 0 0, mR1PlusUCrossN1 = Vector3 0 0 0,
          mR1PlusUCrossN2 = Vector3 0 0 0, mR1PlusUCrossSliderAxis = Vector3 0 0 0,
          mBTranslation = Vector2 0 0, mBRotation = Vector3 0 0 0, mBLowerLimit = 0,
          mBUpperLimit = 0,
          mInverseMassMatrixTranslationConstraint = Matrix2x2 (Vector2 1 0) (Vector2 0 1),
          mInverseMassMatrixRotationConstraint =
            Matrix3x3 (Vector3 1 0 0) (Vector3 0 1 0) (Vector3 0 0 1),
          mInverseMassMatrixLimit = 1, mInverseMassMatrixMotor = 1,
          mImpulseTranslation = Vector2 0 0, mImpulseRotation = Vector3 0 0 0,
          mImpulseLowerLimit = 0, mImpulseUpperLimit = 0, mImpulseMotor = 6,
          mIsLimitEnabled = True, mIsMotorEnabled = True, mSliderAxisWorld = Vector3 1 0 0,
          mLowerLimit = - 1, mUpperLimit = 1, mIsLowerLimitViolated = False,
          mIsUpperLimitViolated = False, mMotorSpeed = 2, mMaxMotorForce = 10 \<rparr> 0
       = Inl DivisionByZero
   \<and> getMotorForce_div (\<lambda>impulse divisor. Inr (if divisor = 0 then 0 else impulse / divisor))
        \<lparr> mLocalAnchorPointBody1 = Vector3 0 0 0, mLocalAnchorPointBody2 = Vector3 0 0 0,
          mSliderAxisBody1 = Vector3 1 0 0, mInitOrientationDifference = Quaternion 0 0 0 1,
          mN1 = Vector3 0 1 0, mN2 = Vector3 0 0 1, mR1 = Vector3 0 0 0, mR2 = Vector3 0 0 0,
          mR2CrossN1 = Vector3 0 0 0, mR2CrossN2 = Vector3 0 0 0,
          mR2CrossSliderAxis = Vector3 0 0 0, mR1PlusUCrossN1 = Vector3 0 0 0,
          mR1PlusUCrossN2 = Vector3 0 0 0, mR1PlusUCrossSliderAxis = Vector3 0 0 0,
          mBTranslation = Vector2 0 0, mBRotation = Vector3 0 0 0, mBLowerLimit = 0,
          mBUpperLimit = 0,
          mInverseMassMatrixTranslationConstraint = Matrix2x2 (Vector2 1 0) (Vector2 0 1),
          mInverseMassMatrixRotationConstraint =
            Matrix3x3 (Vector3 1 0 0) (Vector3 0 1 0) (Vector3 0 0 1),
          mInverseMassMatrixLimit = 1, mInverseMassMatrixMotor = 1,
          mImpulseTranslation = Vector2 0 0, mImpulseRotation = Vector3 0 0 0,
          mImpulseLowerLimit = 0, mImpulseUpperLimit = 0, mImpulseMotor = 6,
          mIsLimitEnabled = True, mIsMotorEnabled = True, mSliderAxisWorld = Vector3 1 0 0,
          mLowerLimit = - 1, mUpperLimit = 1, mIsLowerLimitViolated = False,
          mIsUpperLimitViolated = False, mMotorSpeed = 2, mMaxMotorForce = 10 \<rparr> 0
       = Inr 0"
proof -
  let ?j = "\<lparr> mLocalAnchorPointBody1 = Vector3 0 0 0, mLocalAnchorPointBody2 = Vector3 0 0 0,
          mSliderAxisBody1 = Vector3 1 0 0, mInitOrientationDifference = Quaternion 0 0 0 1,
          mN1 = Vector3 0 1 0, mN2 = Vector3 0 0 1, mR1 = Vector3 0 0 0, mR2 = Vector3 0 0 0,
          mR2CrossN1 = Vector3 0 0 0, mR2CrossN2 = Vector3 0 0 0,
          mR2CrossSliderAxis = Vector3 0 0 0, mR1PlusUCrossN1 = Vector3 0 0 0,
          mR1PlusUCrossN2 = Vector3 0 0 0, mR1PlusUCrossSliderAxis = Vector3 0 0 0,
          mBTranslation = Vector2 0 0, mBRotation = Vector3 0 0 0, mBLowerLimit = 0,
          mBUpperLimit = 0,
          mInverseMassMatrixTranslationConstraint = Matrix2x2 (Vector2 1 0) (Vector2 0 1),
          mInverseMassMatrixRotationConstraint =
            Matrix3x3 (Vector3 1 0 0) (Vector3 0 1 0) (Vector3 0 0 1),
          mInverseMassMatrixLimit = 1, mInverseMassMatrixMotor = 1,
          mImpulseTranslation = Vector2 0 0, mImpulseRotation = Vector3 0 0 0,
          mImpulseLowerLimit = 0, mImpulseUpperLimit = 0, mImpulseMotor = 6,
          mIsLimitEnabled = True, mIsMotorEnabled = True, mSliderAxisWorld = Vector3 1 0 0,
          mLowerLimit = - 1, mUpperLimit = 1, mIsLowerLimitViolated = False,
          mIsUpperLimitViolated = False, mMotorSpeed = 2, mMaxMotorForce = (10::decimal) \<rparr>"
  have undefined_at_zero: "\<forall>impulse. decimal_div impulse 0 = Inl DivisionByZero"
    by (simp add: decimal_div_def)
  from getMotorForce_unguarded [of decimal_div ?j 0] undefined_at_zero
  have no_result: "getMotorForce_div decimal_div ?j 0 = Inl DivisionByZero"
    by blast
  from getMotorForce_unguarded [of "\<lambda>impulse divisor. Inr (if divisor = 0 then 0 else impulse / divisor)" ?j 0]
  have other_operator:
    "getMotorForce_div (\<lambda>impulse divisor. Inr (if divisor = 0 then 0 else impulse / divisor)) ?j 0 = Inr 0"
    by simp
  from undefined_at_zero no_result other_operator show ?thesis
    by (intro conjI)
qed

subsection \<open>Configuration values of SliderJointInfo\<close>

text \<open>
  The constructor with limits and motor accepts a lower limit above the upper limit and
  a negative maximum motor force: it returns the configuration with both values as
  given, neither rejected nor clamped.
\<close>

lemma SliderJointInfo_limitsMotor_invalid:
  "lowerLimit (SliderJointInfo_limitsMotor 1 2 (Vector3 0 0 0) (Vector3 1 0 0) 1 (- 1) 0 (- 5)) = 1
   \<and> upperLimit (SliderJointInfo_limitsMotor 1 2 (Vector3 0 0 0) (Vector3 1 0 0) 1 (- 1) 0 (- 5)) = - 1
   \<and> maxMotorForce (SliderJointInfo_limitsMotor 1 2 (Vector3 0 0 0) (Vector3 1 0 0) 1 (- 1) 0 (- 5)) = - 5
   \<and> \<not> validConfiguration
        (SliderJointInfo_limitsMotor 1 2 (Vector3 0 0 0) (Vector3 1 0 0) 1 (- 1) 0 (- 5))"
  by (simp add: SliderJointInfo_limitsMotor_def validConfiguration_def)

text \<open>
  The three constructors of \<open>SliderJointInfo\<close> store the limits and the maximum motor
  force they are given, unchanged and unchecked. The configuration they return has its
  lower limit at most its upper limit and a maximum motor force of at least zero exactly
  when the arguments have: always for the constructor without limits and motor (limits
  -1 and 1, force 0), exactly when \<open>initLowerLimit \<le> initUpperLimit\<close> for the
  constructor with limits (force 0), and exactly when \<open>initLowerLimit \<le> initUpperLimit\<close>
  and \<open>0 \<le> initMaxMotorForce\<close> for the constructor with limits and motor. What the
  constructor of \<open>SliderJoint\<close> (line 238) and the setters (lines 259-277) do with such a
  configuration is in their bodies, which the header does not hold.
\<close>

lemma SliderJointInfo_valid_iff_arguments:
  "validConfiguration (SliderJointInfo_noLimitsNoMotor b1 b2 anchor axis)
   \<and> (validConfiguration (SliderJointInfo_limits b1 b2 anchor axis lo hi) \<longleftrightarrow> lo \<le> hi)
   \<and> (validConfiguration (SliderJointInfo_limitsMotor b1 b2 anchor axis lo hi speed force)
        \<longleftrightarrow> lo \<le> hi \<and> 0 \<le> force)
   \<and> lowerLimit (SliderJointInfo_limits b1 b2 anchor axis lo hi) = lo
   \<and> upperLimit (SliderJointInfo_limits b1 b2 anchor axis lo hi) = hi
   \<and> maxMotorForce (SliderJointInfo_limits b1 b2 anchor axis lo hi) = 0
   \<and> lowerLimit (SliderJointInfo_limitsMotor b1 b2 anchor axis lo hi speed force) = lo
   \<and> upperLimit (SliderJointInfo_limitsMotor b1 b2 anchor axis lo hi speed force) = hi
   \<and> maxMotorForce (SliderJointInfo_limitsMotor b1 b2 anchor axis lo hi speed force) = force"
  by (simp add: SliderJointInfo_noLimitsNoMotor_def SliderJointInfo_limits_def
      SliderJointInfo_limitsMotor_def validConfiguration_def)

subsection \<open>The velocity solve: what each sub-constraint leaves alone\<close>

lemma solveTranslation_keeps:
  "mImpulseMotor (fst (solveTranslation J s)) = mImpulseMotor (fst s)"
  "mImpulseLowerLimit (fst (solveTranslation J s)) = mImpulseLowerLimit (fst s)"
  "mImpulseUpperLimit (fst (solveTranslation J s)) = mImpulseUpperLimit (fst s)"
  "mIsMotorEnabled (fst (solveTranslation J s)) = mIsMotorEnabled (fst s)"
  "mMaxMotorForce (fst (solveTranslation J s)) = mMaxMotorForce (fst s)"
  "mIsLimitEnabled (fst (solveTranslation J s)) = mIsLimitEnabled (fst s)"
  "mIsLowerLimitViolated (fst (solveTranslation J s)) = mIsLowerLimitViolated (fst s)"
  "mIsUpperLimitViolated (fst (solveTranslation J s)) = mIsUpperLimitViolated (fst s)"
  by (simp_all add: solveTranslation_def Let_def split_beta)

lemma solveRotation_keeps:
  "mImpulseMotor (fst (solveRotation J s)) = mImpulseMotor (fst s)"
  "mImpulseLowerLimit (fst (solveRotation J s)) = mImpulseLowerLimit (fst s)"
  "mImpulseUpperLimit (fst (solveRotation J s)) = mImpulseUpperLimit (fst s)"
  "mIsMotorEnabled (fst (solveRotation J s)) = mIsMotorEnabled (fst s)"
  "mMaxMotorForce (fst (solveRotation J s)) = mMaxMotorForce (fst s)"
  "mIsLimitEnabled (fst (solveRotation J s)) = mIsLimitEnabled (fst s)"
  "mIsLowerLimitViolated (fst (solveRotation J s)) = mIsLowerLimitViolated (fst s)"
  "mIsUpperLimitViolated (fst (solveRotation J s)) = mIsUpperLimitViolated (fst s)"
  by (simp_all add: solveRotation_def Let_def split_beta)

lemma solveLowerLimit_keeps:
  "mImpulseMotor (fst (solveLowerLimit J s)) = mImpulseMotor (fst s)"
  "mImpulseUpperLimit (fst (solveLowerLimit J s)) = mImpulseUpperLimit (fst s)"
  "mIsMotorEnabled (fst (solveLowerLimit J s)) = mIsMotorEnabled (fst s)"
  "mMaxMotorForce (fst (solveLowerLimit J s)) = mMaxMotorForce (fst s)"
  "mIsLimitEnabled (fst (solveLowerLimit J s)) = mIsLimitEnabled (fst s)"
  "mIsLowerLimitViolated (fst (solveLowerLimit J s)) = mIsLowerLimitViolated (fst s)"
  "mIsUpperLimitViolated (fst (solveLowerLimit J s)) = mIsUpperLimitViolated (fst s)"
  by (simp_all add: solveLowerLimit_def Let_def split_beta)

lemma solveUpperLimit_keeps:
  "mImpulseMotor (fst (solveUpperLimit J s)) = mImpulseMotor (fst s)"
  "mImpulseLowerLimit (fst (solveUpperLimit J s)) = mImpulseLowerLimit (fst s)"
  "mIsMotorEnabled (fst (solveUpperLimit J s)) = mIsMotorEnabled (fst s)"
  "mMaxMotorForce (fst (solveUpperLimit J s)) = mMaxMotorForce (fst s)"
  "mIsLimitEnabled (fst (solveUpperLimit J s)) = mIsLimitEnabled (fst s)"
  "mIsLowerLimitViolated (fst (solveUpperLimit J s)) = mIsLowerLimitViolated (fst s)"
  "mIsUpperLimitViolated (fst (solveUpperLimit J s)) = mIsUpperLimitViolated (fst s)"
  by (simp_all add: solveUpperLimit_def Let_def split_beta)

lemma solveMotor_keeps:
  "mImpulseLowerLimit (fst (solveMotor J dt s)) = mImpulseLowerLimit (fst s)"
  "mImpulseUpperLimit (fst (solveMotor J dt s)) = mImpulseUpperLimit (fst s)"
  "mIsMotorEnabled (fst (solveMotor J dt s)) = mIsMotorEnabled (fst s)"
  "mMaxMotorForce (fst (solveMotor J dt s)) = mMaxMotorForce (fst s)"
  "mIsLimitEnabled (fst (solveMotor J dt s)) = mIsLimitEnabled (fst s)"
  "mIsLowerLimitViolated (fst (solveMotor J dt s)) = mIsLowerLimitViolated (fst s)"
  "mIsUpperLimitViolated (fst (solveMotor J dt s)) = mIsUpperLimitViolated (fst s)"
  by (simp_all add: solveMotor_def Let_def split_beta)

lemmas substep_keeps = solveTranslation_keeps solveRotation_keeps solveLowerLimit_keeps
  solveUpperLimit_keeps solveMotor_keeps

lemma solveVelocityConstraint_keeps:
  "mIsMotorEnabled (fst (solveVelocityConstraint J dt s)) = mIsMotorEnabled (fst s)"
  "mMaxMotorForce (fst (solveVelocityConstraint J dt s)) = mMaxMotorForce (fst s)"
  "mIsLimitEnabled (fst (solveVelocityConstraint J dt s)) = mIsLimitEnabled (fst s)"
  "mIsLowerLimitViolated (fst (solveVelocityConstraint J dt s)) = mIsLowerLimitViolated (fst s)"
  "mIsUpperLimitViolated (fst (solveVelocityConstraint J dt s)) = mIsUpperLimitViolated (fst s)"
  by (simp_all add: solveVelocityConstraint_def substep_keeps)

lemma velocitySolve_keeps:
  "mIsMotorEnabled (fst (velocitySolve J dt others n s)) = mIsMotorEnabled (fst s)"
  "mMaxMotorForce (fst (velocitySolve J dt others n s)) = mMaxMotorForce (fst s)"
  "mIsLimitEnabled (fst (velocitySolve J dt others n s)) = mIsLimitEnabled (fst s)"
  "mIsLowerLimitViolated (fst (velocitySolve J dt others n s)) = mIsLowerLimitViolated (fst s)"
  "mIsUpperLimitViolated (fst (velocitySolve J dt others n s)) = mIsUpperLimitViolated (fst s)"
  by (induction n; simp add: split_beta solveVelocityConstraint_keeps)+

lemmas velocity_solve_defs = velocitySolve.simps solveVelocityConstraint_def solveMotor_def
  solveUpperLimit_def solveLowerLimit_def solveRotation_def solveTranslation_def clamp_def
  Let_def split_beta

subsection \<open>The motor impulse\<close>

lemma clamp_abs_le: "0 \<le> m \<Longrightarrow> \<bar>clamp x (- m) m\<bar> \<le> m"
  by (simp add: clamp_def min_def max_def abs_if)

lemma solveMotor_impulse:
  "mImpulseMotor (fst (solveMotor J dt s)) =
     (if mIsMotorEnabled (fst s)
      then clamp (mImpulseMotor (fst s) + motorImpulse J (fst s) (snd s))
             (- (mMaxMotorForce (fst s) * dt)) (mMaxMotorForce (fst s) * dt)
      else mImpulseMotor (fst s))"
  by (simp add: solveMotor_def Let_def split_beta)

lemma solveMotor_bound:
  assumes "0 \<le> mMaxMotorForce (fst s) * dt"
    and "mIsMotorEnabled (fst s) \<or> \<bar>mImpulseMotor (fst s)\<bar> \<le> mMaxMotorForce (fst s) * dt"
  shows "\<bar>mImpulseMotor (fst (solveMotor J dt s))\<bar> \<le> mMaxMotorForce (fst s) * dt"
  using assms by (auto simp: solveMotor_impulse clamp_abs_le)

lemma solveVelocityConstraint_motor_bound:
  assumes "0 \<le> mMaxMotorForce (fst s) * dt"
    and "mIsMotorEnabled (fst s) \<or> \<bar>mImpulseMotor (fst s)\<bar> \<le> mMaxMotorForce (fst s) * dt"
  shows "\<bar>mImpulseMotor (fst (solveVelocityConstraint J dt s))\<bar> \<le> mMaxMotorForce (fst s) * dt"
proof -
  let ?s = "solveUpperLimit J (solveLowerLimit J (solveRotation J (solveTranslation J s)))"
  have "\<bar>mImpulseMotor (fst (solveMotor J dt ?s))\<bar> \<le> mMaxMotorForce (fst ?s) * dt"
    by (rule solveMotor_bound) (use assms in \<open>simp_all add: substep_keeps\<close>)
  then show ?thesis
    by (simp add: solveVelocityConstraint_def substep_keeps)
qed

lemma velocitySolve_motor_bound:
  assumes "0 \<le> mMaxMotorForce (fst s) * dt"
    and "mIsMotorEnabled (fst s) \<or> \<bar>mImpulseMotor (fst s)\<bar> \<le> mMaxMotorForce (fst s) * dt"
  shows "\<bar>mImpulseMotor (fst (velocitySolve J dt others (Suc n) s))\<bar>
           \<le> mMaxMotorForce (fst s) * dt"
proof (induction n)
  case 0
  from solveVelocityConstraint_motor_bound [OF assms]
  show ?case by (simp add: split_beta)
next
  case (Suc n)
  let ?s = "velocitySolve J dt others (Suc n) s"
  have "\<bar>mImpulseMotor (fst (solveVelocityConstraint J dt ?s))\<bar> \<le> mMaxMotorForce (fst ?s) * dt"
    by (rule solveVelocityConstraint_motor_bound)
      (use assms Suc in \<open>simp_all only: velocitySolve_keeps simp_thms\<close>)
  then show ?case
    by (simp add: split_beta velocitySolve_keeps solveVelocityConstraint_keeps)
qed

text \<open>
  C3. Take a joint whose maximum motor force \<open>F\<close> is not negative, a step with a time
  delta \<open>dt\<close> that is not negative, and a motor that is enabled (or, with the motor
  disabled, an accumulated motor impulse that is within the bound already). After every
  call of \<open>solveVelocityConstraint\<close> of the step, whatever the other constraints do to
  the velocities between two calls, the magnitude of \<open>mImpulseMotor\<close> is at most
  \<open>F * dt\<close>. The clamp is applied to the total: the new accumulated impulse of an
  enabled motor is the old accumulated impulse plus the impulse of this iteration,
  clamped to \<open>- F * dt\<close> and \<open>F * dt\<close>.
\<close>

theorem motor_impulse_within_bound:
  assumes "0 \<le> mMaxMotorForce j" and "0 \<le> timeStep"
    and "mIsMotorEnabled j \<or> \<bar>mImpulseMotor j\<bar> \<le> mMaxMotorForce j * timeStep"
  shows "\<bar>mImpulseMotor (fst (velocitySolve J timeStep others (Suc n) (j, b)))\<bar>
           \<le> mMaxMotorForce j * timeStep
       \<and> mImpulseMotor (fst (solveMotor J timeStep (j, b))) =
           (if mIsMotorEnabled j
            then clamp (mImpulseMotor j + motorImpulse J j b)
                   (- (mMaxMotorForce j * timeStep)) (mMaxMotorForce j * timeStep)
            else mImpulseMotor j)"
proof
  from assms(1,2) have "0 \<le> mMaxMotorForce (fst (j, b)) * timeStep" by simp
  moreover from assms(3)
  have "mIsMotorEnabled (fst (j, b))
        \<or> \<bar>mImpulseMotor (fst (j, b))\<bar> \<le> mMaxMotorForce (fst (j, b)) * timeStep"
    by simp
  ultimately
  have "\<bar>mImpulseMotor (fst (velocitySolve J timeStep others (Suc n) (j, b)))\<bar>
          \<le> mMaxMotorForce (fst (j, b)) * timeStep"
    by (rule velocitySolve_motor_bound)
  then show "\<bar>mImpulseMotor (fst (velocitySolve J timeStep others (Suc n) (j, b)))\<bar>
          \<le> mMaxMotorForce j * timeStep" by simp
next
  show "mImpulseMotor (fst (solveMotor J timeStep (j, b))) =
           (if mIsMotorEnabled j
            then clamp (mImpulseMotor j + motorImpulse J j b)
                   (- (mMaxMotorForce j * timeStep)) (mMaxMotorForce j * timeStep)
            else mImpulseMotor j)"
    by (simp add: solveMotor_impulse)
qed

theorem motor_impulse_within_bound_witness:
  "let j = \<lparr> mLocalAnchorPointBody1 = Vector3 0 0 0, mLocalAnchorPointBody2 = Vector3 0 0 0,
          mSliderAxisBody1 = Vector3 1 0 0, mInitOrientationDifference = Quaternion 0 0 0 1,
          mN1 = Vector3 0 1 0, mN2 = Vector3 0 0 1, mR1 = Vector3 0 0 0, mR2 = Vector3 0 0 0,
          mR2CrossN1 = Vector3 0 0 0, mR2CrossN2 = Vector3 0 0 0,
          mR2CrossSliderAxis = Vector3 0 0 0, mR1PlusUCrossN1 = Vector3 0 0 0,
          mR1PlusUCrossN2 = Vector3 0 0 0, mR1PlusUCrossSliderAxis = Vector3 0 0 0,
          mBTranslation = Vector2 0 0, mBRotation = Vector3 0 0 0, mBLowerLimit = 0,
          mBUpperLimit = 0,
          mInverseMassMatrixTranslationConstraint = Matrix2x2 (Vector2 1 0) (Vector2 0 1),
          mInverseMassMatrixRotationConstraint =
            Matrix3x3 (Vector3 1 0 0) (Vector3 0 1 0) (Vector3 0 0 1),
          mInverseMassMatrixLimit = 1, mInverseMassMatrixMotor = 1,
          mImpulseTranslation = Vector2 0 0, mImpulseRotation = Vector3 0 0 0,
          mImpulseLowerLimit = 0, mImpulseUpperLimit = 0, mImpulseMotor = 4,
          mIsLimitEnabled = True, mIsMotorEnabled = True, mSliderAxisWorld = Vector3 1 0 0,
          mLowerLimit = - 1, mUpperLimit = 1, mIsLowerLimitViolated = False,
          mIsUpperLimitViolated = False, mMotorSpeed = 20, mMaxMotorForce = 10 \<rparr>;
       J = \<lparr> translationImpulse = (\<lambda>j b. Vector2 0 0),
          rotationImpulse = (\<lambda>j b. Vector3 0 0 0),
          lowerLimitImpulse = (\<lambda>j b. - b),
          upperLimitImpulse = (\<lambda>j b. b),
          motorImpulse = (\<lambda>j b. mMotorSpeed j - b),
          applyTranslationImpulse = (\<lambda>j i b. b),
          applyRotationImpulse = (\<lambda>j i b. b),
          applyLowerLimitImpulse = (\<lambda>j i b. b + i),
          applyUpperLimitImpulse = (\<lambda>j i b. b - i),
          applyMotorImpulse = (\<lambda>j i b. b + i) \<rparr>;
       s = velocitySolve J (1 / 2) (\<lambda>k b. b) (Suc (Suc 0)) (j, 0::decimal)
   in 0 \<le> mMaxMotorForce j \<and> (0::decimal) \<le> 1 / 2 \<and> mIsMotorEnabled j
      \<and> \<bar>mImpulseMotor (fst s)\<bar> \<le> mMaxMotorForce j * (1 / 2)
      \<and> mImpulseMotor (fst s) = 5 \<and> snd s = 1
      \<and> mImpulseMotor (fst (solveMotor J (1 / 2) (j, 0))) = clamp (4 + 20) (- 5) 5"
  unfolding Let_def
  using motor_impulse_within_bound [of "\<lparr> mLocalAnchorPointBody1 = Vector3 0 0 0, mLocalAnchorPointBody2 = Vector3 0 0 0,
          mSliderAxisBody1 = Vector3 1 0 0, mInitOrientationDifference = Quaternion 0 0 0 1,
          mN1 = Vector3 0 1 0, mN2 = Vector3 0 0 1, mR1 = Vector3 0 0 0, mR2 = Vector3 0 0 0,
          mR2CrossN1 = Vector3 0 0 0, mR2CrossN2 = Vector3 0 0 0,
          mR2CrossSliderAxis = Vector3 0 0 0, mR1PlusUCrossN1 = Vector3 0 0 0,
          mR1PlusUCrossN2 = Vector3 0 0 0, mR1PlusUCrossSliderAxis = Vector3 0 0 0,
          mBTranslation = Vector2 0 0, mBRotation = Vector3 0 0 0, mBLowerLimit = 0,
          mBUpperLimit = 0,
          mInverseMassMatrixTranslationConstraint = Matrix2x2 (Vector2 1 0) (Vector2 0 1),
          mInverseMassMatrixRotationConstraint =
            Matrix3x3 (Vector3 1 0 0) (Vector3 0 1 0) (Vector3 0 0 1),
          mInverseMassMatrixLimit = 1, mInverseMassMatrixMotor = 1,
          mImpulseTranslation = Vector2 0 0, mImpulseRotation = Vector3 0 0 0,
          mImpulseLowerLimit = 0, mImpulseUpperLimit = 0, mImpulseMotor = 4,
          mIsLimitEnabled = True, mIsMotorEnabled = True, mSliderAxisWorld = Vector3 1 0 0,
          mLowerLimit = - 1, mUpperLimit = 1, mIsLowerLimitViolated = False,
          mIsUpperLimitViolated = False, mMotorSpeed = 20, mMaxMotorForce = 10 \<rparr>" "1 / 2" "\<lparr> translationImpulse = (\<lambda>j b. Vector2 0 0),
          rotationImpulse = (\<lambda>j b. Vector3 0 0 0),
          lowerLimitImpulse = (\<lambda>j b. - b),
          upperLimitImpulse = (\<lambda>j b. b),
          motorImpulse = (\<lambda>j b. mMotorSpeed j - b),
          applyTranslationImpulse = (\<lambda>j i b. b),
          applyRotationImpulse = (\<lambda>j i b. b),
          applyLowerLimitImpulse = (\<lambda>j i b. b + i),
          applyUpperLimitImpulse = (\<lambda>j i b. b - i),
          applyMotorImpulse = (\<lambda>j i b. b + i) \<rparr>" "\<lambda>k b. b" "Suc 0" 0]
  by (simp add: velocity_solve_defs)

subsection \<open>The limit impulses\<close>

lemma solveLowerLimit_impulse:
  "mImpulseLowerLimit (fst (solveLowerLimit J s)) =
     (if mIsLimitEnabled (fst s) \<and> mIsLowerLimitViolated (fst s)
      then max (mImpulseLowerLimit (fst s) + lowerLimitImpulse J (fst s) (snd s)) 0
      else mImpulseLowerLimit (fst s))"
  by (simp add: solveLowerLimit_def Let_def split_beta)

lemma solveUpperLimit_impulse:
  "mImpulseUpperLimit (fst (solveUpperLimit J s)) =
     (if mIsLimitEnabled (fst s) \<and> mIsUpperLimitViolated (fst s)
      then max (mImpulseUpperLimit (fst s) + upperLimitImpulse J (fst s) (snd s)) 0
      else mImpulseUpperLimit (fst s))"
  by (simp add: solveUpperLimit_def Let_def split_beta)

lemma solveVelocityConstraint_limits_nonneg:
  assumes "0 \<le> mImpulseLowerLimit (fst s)" and "0 \<le> mImpulseUpperLimit (fst s)"
  shows "0 \<le> mImpulseLowerLimit (fst (solveVelocityConstraint J dt s))"
    and "0 \<le> mImpulseUpperLimit (fst (solveVelocityConstraint J dt s))"
  using assms
  by (simp_all add: solveVelocityConstraint_def substep_keeps solveLowerLimit_impulse
      solveUpperLimit_impulse)

lemma velocitySolve_limits_nonneg:
  assumes "0 \<le> mImpulseLowerLimit (fst s)" and "0 \<le> mImpulseUpperLimit (fst s)"
  shows "0 \<le> mImpulseLowerLimit (fst (velocitySolve J dt others n s))
       \<and> 0 \<le> mImpulseUpperLimit (fst (velocitySolve J dt others n s))"
proof (induction n)
  case 0
  from assms show ?case by simp
next
  case (Suc n)
  then show ?case
    by (simp add: split_beta solveVelocityConstraint_limits_nonneg)
qed

text \<open>
  C4. In \<open>solveVelocityConstraint\<close> a limit sub-constraint is evaluated only when the
  limits are enabled and that limit is violated: otherwise the sub-step returns the
  joint and the velocities as they were. An evaluated sub-step sets the accumulated
  impulse to the old accumulated impulse plus the impulse of this iteration, clamped at
  zero from below. So accumulated lower-limit and upper-limit impulses that are not
  negative at the start stay not negative after any number of calls, whatever the other
  constraints do to the velocities between two calls.
\<close>

theorem limit_impulses_nonnegative:
  assumes "0 \<le> mImpulseLowerLimit j" and "0 \<le> mImpulseUpperLimit j"
  shows "0 \<le> mImpulseLowerLimit (fst (velocitySolve J timeStep others n (j, b)))
       \<and> 0 \<le> mImpulseUpperLimit (fst (velocitySolve J timeStep others n (j, b)))
       \<and> (\<not> (mIsLimitEnabled j \<and> mIsLowerLimitViolated j) \<longrightarrow> solveLowerLimit J (j, b) = (j, b))
       \<and> (\<not> (mIsLimitEnabled j \<and> mIsUpperLimitViolated j) \<longrightarrow> solveUpperLimit J (j, b) = (j, b))
       \<and> mImpulseLowerLimit (fst (solveLowerLimit J (j, b))) =
           (if mIsLimitEnabled j \<and> mIsLowerLimitViolated j
            then max (mImpulseLowerLimit j + lowerLimitImpulse J j b) 0
            else mImpulseLowerLimit j)
       \<and> mImpulseUpperLimit (fst (solveUpperLimit J (j, b))) =
           (if mIsLimitEnabled j \<and> mIsUpperLimitViolated j
            then max (mImpulseUpperLimit j + upperLimitImpulse J j b) 0
            else mImpulseUpperLimit j)"
proof -
  have "0 \<le> mImpulseLowerLimit (fst (velocitySolve J timeStep others n (j, b)))
       \<and> 0 \<le> mImpulseUpperLimit (fst (velocitySolve J timeStep others n (j, b)))"
    by (rule velocitySolve_limits_nonneg) (use assms in simp_all)
  moreover have "\<not> (mIsLimitEnabled j \<and> mIsLowerLimitViolated j) \<longrightarrow> solveLowerLimit J (j, b) = (j, b)"
    by (simp add: solveLowerLimit_def)
  moreover have "\<not> (mIsLimitEnabled j \<and> mIsUpperLimitViolated j) \<longrightarrow> solveUpperLimit J (j, b) = (j, b)"
    by (simp add: solveUpperLimit_def)
  ultimately show ?thesis
    by (simp only: solveLowerLimit_impulse solveUpperLimit_impulse fst_conv snd_conv simp_thms)
qed

theorem limit_impulses_nonnegative_witness:
  "let j = \<lparr> mLocalAnchorPointBody1 = Vector3 0 0 0, mLocalAnchorPointBody2 = Vector3 0 0 0,
          mSliderAxisBody1 = Vector3 1 0 0, mInitOrientationDifference = Quaternion 0 0 0 1,
          mN1 = Vector3 0 1 0, mN2 = Vector3 0 0 1, mR1 = Vector3 0 0 0, mR2 = Vector3 0 0 0,
          mR2CrossN1 = Vector3 0 0 0, mR2CrossN2 = Vector3 0 0 0,
          mR2CrossSliderAxis = Vector3 0 0 0, mR1PlusUCrossN1 = Vector3 0 0 0,
          mR1PlusUCrossN2 = Vector3 0 0 0, mR1PlusUCrossSliderAxis = Vector3 0 0 0,
          mBTranslation = Vector2 0 0, mBRotation = Vector3 0 0 0, mBLowerLimit = 0,
          mBUpperLimit = 0,
          mInverseMassMatrixTranslationConstraint = Matrix2x2 (Vector2 1 0) (Vector2 0 1),
          mInverseMassMatrixRotationConstraint =
            Matrix3x3 (Vector3 1 0 0) (Vector3 0 1 0) (Vector3 0 0 1),
          mInverseMassMatrixLimit = 1, mInverseMassMatrixMotor = 1,
          mImpulseTranslation = Vector2 0 0, mImpulseRotation = Vector3 0 0 0,
          mImpulseLowerLimit = 1, mImpulseUpperLimit = 0, mImpulseMotor = 0,
          mIsLimitEnabled = True, mIsMotorEnabled = True, mSliderAxisWorld = Vector3 1 0 0,
          mLowerLimit = - 1, mUpperLimit = 1, mIsLowerLimitViolated = True,
          mIsUpperLimitViolated = False, mMotorSpeed = 20, mMaxMotorForce = 10 \<rparr>;
       J = \<lparr> translationImpulse = (\<lambda>j b. Vector2 0 0),
          rotationImpulse = (\<lambda>j b. Vector3 0 0 0),
          lowerLimitImpulse = (\<lambda>j b. - b),
          upperLimitImpulse = (\<lambda>j b. b),
          motorImpulse = (\<lambda>j b. mMotorSpeed j - b),
          applyTranslationImpulse = (\<lambda>j i b. b),
          applyRotationImpulse = (\<lambda>j i b. b),
          applyLowerLimitImpulse = (\<lambda>j i b. b + i),
          applyUpperLimitImpulse = (\<lambda>j i b. b - i),
          applyMotorImpulse = (\<lambda>j i b. b + i) \<rparr>;
       s = velocitySolve J (1 / 2) (\<lambda>k b. b) (Suc (Suc 0)) (j, 3::decimal)
   in 0 \<le> mImpulseLowerLimit j \<and> 0 \<le> mImpulseUpperLimit j
      \<and> 0 \<le> mImpulseLowerLimit (fst s) \<and> 0 \<le> mImpulseUpperLimit (fst s)
      \<and> mImpulseLowerLimit (fst s) = 0 \<and> snd s = 7
      \<and> mIsLimitEnabled j \<and> mIsLowerLimitViolated j
      \<and> mImpulseLowerLimit (fst (solveLowerLimit J (j, 3))) = max (1 + - 3) 0
      \<and> \<not> (mIsLimitEnabled j \<and> mIsUpperLimitViolated j)
      \<and> solveUpperLimit J (j, 3) = (j, 3)
      \<and> \<not> (mIsLimitEnabled (j\<lparr>mIsLimitEnabled := False\<rparr>)
             \<and> mIsLowerLimitViolated (j\<lparr>mIsLimitEnabled := False\<rparr>))
      \<and> solveLowerLimit J (j\<lparr>mIsLimitEnabled := False\<rparr>, 3) = (j\<lparr>mIsLimitEnabled := False\<rparr>, 3)"
  unfolding Let_def
  using limit_impulses_nonnegative [of "\<lparr> mLocalAnchorPointBody1 = Vector3 0 0 0, mLocalAnchorPointBody2 = Vector3 0 0 0,
          mSliderAxisBody1 = Vector3 1 0 0, mInitOrientationDifference = Quaternion 0 0 0 1,
          mN1 = Vector3 0 1 0, mN2 = Vector3 0 0 1, mR1 = Vector3 0 0 0, mR2 = Vector3 0 0 0,
          mR2CrossN1 = Vector3 0 0 0, mR2CrossN2 = Vector3 0 0 0,
          mR2CrossSliderAxis = Vector3 0 0 0, mR1PlusUCrossN1 = Vector3 0 0 0,
          mR1PlusUCrossN2 = Vector3 0 0 0, mR1PlusUCrossSliderAxis = Vector3 0 0 0,
          mBTranslation = Vector2 0 0, mBRotation = Vector3 0 0 0, mBLowerLimit = 0,
          mBUpperLimit = 0,
          mInverseMassMatrixTranslationConstraint = Matrix2x2 (Vector2 1 0) (Vector2 0 1),
          mInverseMassMatrixRotationConstraint =
            Matrix3x3 (Vector3 1 0 0) (Vector3 0 1 0) (Vector3 0 0 1),
          mInverseMassMatrixLimit = 1, mInverseMassMatrixMotor = 1,
          mImpulseTranslation = Vector2 0 0, mImpulseRotation = Vector3 0 0 0,
          mImpulseLowerLimit = 1, mImpulseUpperLimit = 0, mImpulseMotor = 0,
          mIsLimitEnabled = True, mIsMotorEnabled = True, mSliderAxisWorld = Vector3 1 0 0,
          mLowerLimit = - 1, mUpperLimit = 1, mIsLowerLimitViolated = True,
          mIsUpperLimitViolated = False, mMotorSpeed = 20, mMaxMotorForce = 10 \<rparr>" "\<lparr> translationImpulse = (\<lambda>j b. Vector2 0 0),
          rotationImpulse = (\<lambda>j b. Vector3 0 0 0),
          lowerLimitImpulse = (\<lambda>j b. - b),
          upperLimitImpulse = (\<lambda>j b. b),
          motorImpulse = (\<lambda>j b. mMotorSpeed j - b),
          applyTranslationImpulse = (\<lambda>j i b. b),
          applyRotationImpulse = (\<lambda>j i b. b),
          applyLowerLimitImpulse = (\<lambda>j i b. b + i),
          applyUpperLimitImpulse = (\<lambda>j i b. b - i),
          applyMotorImpulse = (\<lambda>j i b. b + i) \<rparr>" "1 / 2" "\<lambda>k b. b" "Suc (Suc 0)" 3]
    limit_impulses_nonnegative [of "\<lparr> mLocalAnchorPointBody1 = Vector3 0 0 0, mLocalAnchorPointBody2 = Vector3 0 0 0,
          mSliderAxisBody1 = Vector3 1 0 0, mInitOrientationDifference = Quaternion 0 0 0 1,
          mN1 = Vector3 0 1 0, mN2 = Vector3 0 0 1, mR1 = Vector3 0 0 0, mR2 = Vector3 0 0 0,
          mR2CrossN1 = Vector3 0 0 0, mR2CrossN2 = Vector3 0 0 0,
          mR2CrossSliderAxis = Vector3 0 0 0, mR1PlusUCrossN1 = Vector3 0 0 0,
          mR1PlusUCrossN2 = Vector3 0 0 0, mR1PlusUCrossSliderAxis = Vector3 0 0 0,
          mBTranslation = Vector2 0 0, mBRotation = Vector3 0 0 0, mBLowerLimit = 0,
          mBUpperLimit = 0,
          mInverseMassMatrixTranslationConstraint = Matrix2x2 (Vector2 1 0) (Vector2 0 1),
          mInverseMassMatrixRotationConstraint =
            Matrix3x3 (Vector3 1 0 0) (Vector3 0 1 0) (Vector3 0 0 1),
          mInverseMassMatrixLimit = 1, mInverseMassMatrixMotor = 1,
          mImpulseTranslation = Vector2 0 0, mImpulseRotation = Vector3 0 0 0,
          mImpulseLowerLimit = 1, mImpulseUpperLimit = 0, mImpulseMotor = 0,
          mIsLimitEnabled = True, mIsMotorEnabled = True, mSliderAxisWorld = Vector3 1 0 0,
          mLowerLimit = - 1, mUpperLimit = 1, mIsLowerLimitViolated = True,
          mIsUpperLimitViolated = False, mMotorSpeed = 20, mMaxMotorForce = 10 \<rparr>\<lparr>mIsLimitEnabled := False\<rparr>" "\<lparr> translationImpulse = (\<lambda>j b. Vector2 0 0),
          rotationImpulse = (\<lambda>j b. Vector3 0 0 0),
          lowerLimitImpulse = (\<lambda>j b. - b),
          upperLimitImpulse = (\<lambda>j b. b),
          motorImpulse = (\<lambda>j b. mMotorSpeed j - b),
          applyTranslationImpulse = (\<lambda>j i b. b),
          applyRotationImpulse = (\<lambda>j i b. b),
          applyLowerLimitImpulse = (\<lambda>j i b. b + i),
          applyUpperLimitImpulse = (\<lambda>j i b. b - i),
          applyMotorImpulse = (\<lambda>j i b. b + i) \<rparr>" "1 / 2" "\<lambda>k b. b" "Suc (Suc 0)" 3]
  by (simp add: velocity_solve_defs)

end
